theory Spec2Isabelle
  imports Main "HOL-Library.Sublist" "HOL-Library.AList" "HOL-Library.Multiset"
begin

section \<open>Data model\<close>

text \<open>
  The decoder of goqs (the revision of \<^verbatim>\<open>decoder.go\<close> with 447 lines, in which
  \<^verbatim>\<open>Parse\<close> folds \<^verbatim>\<open>merge\<close> over the parsed keys) works on Go's
  \<^verbatim>\<open>interface{}\<close>. The dynamic types that the decoder creates are: the nil interface,
  \<^verbatim>\<open>string\<close>, \<^verbatim>\<open>bool\<close> (the \<^verbatim>\<open>true\<close> that \<^verbatim>\<open>merge\<close> stores),
  \<^verbatim>\<open>[]interface{}\<close> and \<^verbatim>\<open>QSType\<close>, declared as
  \<^verbatim>\<open>type QSType map[interface{}]interface{}\<close>. A key of a \<^verbatim>\<open>QSType\<close> is a string,
  an int or a bool; the string \<^verbatim>\<open>"0"\<close> and the int \<^verbatim>\<open>0\<close> are different keys.

  A Go map is an association list with pairwise distinct keys: \<open>map_of\<close> reads it,
  \<open>AList.update\<close> is the assignment \<^verbatim>\<open>m[k] = v\<close> and \<open>length\<close> is \<^verbatim>\<open>len(m)\<close>.
  The order of the entries in the list has no meaning in Go.
\<close>

datatype key = KStr string | KInt int | KBool bool

datatype val =
    VNil
  | VStr string
  | VBool bool
  | VArr "val list"
  | VMap "(key \<times> val) list"

type_synonym QSType = "(key \<times> val) list"

text \<open>A run-time panic of Go ends the call; it is the left summand of every result.\<close>

datatype panic = IndexOutOfRange | NilDereference | TypeAssertion

text \<open>\<^verbatim>\<open>reflect.TypeOf(v).Kind()\<close>: \<^verbatim>\<open>reflect.TypeOf(nil)\<close> is the nil
  \<^verbatim>\<open>Type\<close>, and calling \<^verbatim>\<open>Kind\<close> on it panics.\<close>

datatype kind = String | Boolean | Slice | Map

fun kindOf :: "val \<Rightarrow> panic + kind" where
  "kindOf VNil = Inl NilDereference"
| "kindOf (VStr _) = Inr String"
| "kindOf (VBool _) = Inr Boolean"
| "kindOf (VArr _) = Inr Slice"
| "kindOf (VMap _) = Inr Map"

definition IsArrayLike :: "val \<Rightarrow> panic + bool" where
  "IsArrayLike v = (case kindOf v of Inl e \<Rightarrow> Inl e | Inr k \<Rightarrow> Inr (k = Slice))"

text \<open>The interface value used as a map key in \<^verbatim>\<open>tMap[source]\<close>; \<^verbatim>\<open>merge\<close> only
  indexes with a source that is neither a map nor a slice nor nil.\<close>

fun keyOf :: "val \<Rightarrow> key" where
  "keyOf (VStr s) = KStr s"
| "keyOf (VBool b) = KBool b"
| "keyOf _ = KStr []"

section \<open>The merge engine\<close>

text \<open>\<^verbatim>\<open>concat(target, s)\<close> with one source: a slice is spliced in, anything else is
  appended; \<^verbatim>\<open>IsArrayLike\<close> panics on nil.\<close>

definition concat_go :: "val list \<Rightarrow> val \<Rightarrow> panic + val list" where
  "concat_go target s =
     (case IsArrayLike s of
        Inl e \<Rightarrow> Inl e
      | Inr isArr \<Rightarrow> (case s of VArr ss \<Rightarrow> Inr (target @ ss) | _ \<Rightarrow> Inr (target @ [s])))"

definition arrayToObj :: "val list \<Rightarrow> QSType" where
  "arrayToObj arr = map (\<lambda>i. (KInt (int i), arr ! i)) [0..<length arr]"

text \<open>The branch of \<^verbatim>\<open>merge\<close> for a source that is neither a map nor a slice
  (\<^verbatim>\<open>switch tk\<close>).\<close>

definition mergeScalar :: "val \<Rightarrow> val \<Rightarrow> val" where
  "mergeScalar target source =
     (case target of
        VArr tArr \<Rightarrow> VArr (tArr @ [source])
      | VMap tMap \<Rightarrow>
          (if map_of tMap (keyOf source) = None
           then VMap (AList.update (keyOf source) (VBool True) tMap)
           else VMap tMap)
      | _ \<Rightarrow> VArr [target, source])"

definition isObject :: "val \<Rightarrow> bool" where
  "isObject v = (case v of VArr _ \<Rightarrow> True | VMap _ \<Rightarrow> True | _ \<Rightarrow> False)"

text \<open>
  \<^verbatim>\<open>merge\<close> updates its target in place and returns it; every caller stores the
  returned value where the target came from, and no value is reachable from two places,
  so the model returns the updated value. The three loops of \<^verbatim>\<open>merge\<close> are
  \<open>mergeArr\<close> (both slices: positions below \<^verbatim>\<open>len(arrT)\<close> are merged, the rest is
  appended), \<open>mergeIdx\<close> (a slice merged into a map under its positions) and
  \<open>mergeMap\<close> (a map merged into a map; the entries of the source are visited in the
  order of the list, and each entry touches its own key only).
\<close>

function merge :: "val \<Rightarrow> val \<Rightarrow> panic + val"
  and mergeArr :: "val list \<Rightarrow> val list \<Rightarrow> panic + val list"
  and mergeIdx :: "QSType \<Rightarrow> nat \<Rightarrow> val list \<Rightarrow> panic + QSType"
  and mergeMap :: "QSType \<Rightarrow> QSType \<Rightarrow> panic + QSType"
where
  "merge target source =
     (if source = VNil then Inr target
      else if target = VNil then Inl NilDereference
      else if \<not> isObject source then Inr (mergeScalar target source)
      else if \<not> isObject target then
        (case concat_go [target] source of Inl e \<Rightarrow> Inl e | Inr r \<Rightarrow> Inr (VArr r))
      else
        (case source of
           VArr arrS \<Rightarrow>
             (case target of
                VArr arrT \<Rightarrow>
                  (case mergeArr arrT arrS of Inl e \<Rightarrow> Inl e | Inr r \<Rightarrow> Inr (VArr r))
              | VMap tMap \<Rightarrow>
                  (case mergeIdx tMap 0 arrS of Inl e \<Rightarrow> Inl e | Inr r \<Rightarrow> Inr (VMap r))
              | _ \<Rightarrow> Inl TypeAssertion)
         | VMap mapS \<Rightarrow>
             (case target of
                VArr arrT \<Rightarrow>
                  (case mergeMap (arrayToObj arrT) mapS of
                     Inl e \<Rightarrow> Inl e | Inr r \<Rightarrow> Inr (VMap r))
              | VMap tMap \<Rightarrow>
                  (case mergeMap tMap mapS of Inl e \<Rightarrow> Inl e | Inr r \<Rightarrow> Inr (VMap r))
              | _ \<Rightarrow> Inl TypeAssertion)
         | _ \<Rightarrow> Inl TypeAssertion))"
| "mergeArr arrT [] = Inr arrT"
| "mergeArr [] (item # arrS) = Inr (item # arrS)"
| "mergeArr (t # arrT) (item # arrS) =
     (case merge t item of
        Inl e \<Rightarrow> Inl e
      | Inr r \<Rightarrow> (case mergeArr arrT arrS of Inl e \<Rightarrow> Inl e | Inr rs \<Rightarrow> Inr (r # rs)))"
| "mergeIdx mergeTarget i [] = Inr mergeTarget"
| "mergeIdx mergeTarget i (item # arrS) =
     (case map_of mergeTarget (KInt (int i)) of
        Some tv \<Rightarrow>
          (case merge tv item of
             Inl e \<Rightarrow> Inl e
           | Inr r \<Rightarrow> mergeIdx (AList.update (KInt (int i)) r mergeTarget) (Suc i) arrS)
      | None \<Rightarrow> mergeIdx (AList.update (KInt (int i)) item mergeTarget) (Suc i) arrS)"
| "mergeMap mergeTarget [] = Inr mergeTarget"
| "mergeMap mergeTarget ((k, v) # mapS) =
     (case map_of mergeTarget k of
        Some tv \<Rightarrow>
          (case merge tv v of
             Inl e \<Rightarrow> Inl e
           | Inr r \<Rightarrow> mergeMap (AList.update k r mergeTarget) mapS)
      | None \<Rightarrow> mergeMap (AList.update k v mergeTarget) mapS)"
  by pat_completeness auto
termination
  by (relation "measure (\<lambda>x. case x of
        Inl (Inl (t, s)) \<Rightarrow> size s
      | Inl (Inr (ts, ss)) \<Rightarrow> size_list size ss
      | Inr (Inl (m, i, ss)) \<Rightarrow> size_list size ss
      | Inr (Inr (m, sm)) \<Rightarrow> size_list (size_prod (\<lambda>_. 0) size) sm)") auto

declare merge.simps(1) [simp del]

section \<open>Go library functions used by the decoder\<close>

text \<open>Go strings are byte sequences; \<open>string\<close> is a list of 8-bit characters.
  An index result of \<^verbatim>\<open>-1\<close> is \<open>None\<close>.\<close>

fun Index :: "string \<Rightarrow> string \<Rightarrow> nat option" where
  "Index [] substr = (if substr = [] then Some 0 else None)"
| "Index (c # cs) substr =
     (if prefix substr (c # cs) then Some 0 else map_option Suc (Index cs substr))"

definition Contains :: "string \<Rightarrow> string \<Rightarrow> bool" where
  "Contains s substr = (Index s substr \<noteq> None)"

text \<open>\<^verbatim>\<open>before, _, _ = strings.Cut(s, sep)\<close>.\<close>

definition Cut :: "string \<Rightarrow> string \<Rightarrow> string" where
  "Cut s sep = (case Index s sep of None \<Rightarrow> s | Some i \<Rightarrow> take i s)"

text \<open>The size in bytes of the first UTF-8 sequence of a string, as
  \<^verbatim>\<open>utf8.DecodeRuneInString\<close> reports it: an invalid or truncated sequence has size 1.\<close>

definition byte :: "string \<Rightarrow> nat \<Rightarrow> nat" where
  "byte s i = of_char (s ! i)"

definition runeSize :: "string \<Rightarrow> nat" where
  "runeSize s =
     (if s = [] then 0
      else let b0 = byte s 0 in
        if b0 < 0xC2 \<or> 0xF4 < b0 then 1
        else let sz = (if b0 < 0xE0 then 2 else if b0 < 0xF0 then 3 else 4 :: nat);
                 lo = (if b0 = 0xE0 then 0xA0 else if b0 = 0xF0 then 0x90 else 0x80 :: nat);
                 hi = (if b0 = 0xED then 0x9F else if b0 = 0xF4 then 0x8F else 0xBF :: nat)
          in if length s < sz then 1
             else if byte s 1 < lo \<or> hi < byte s 1 then 1
             else if sz \<le> 2 then 2
             else if byte s 2 < 0x80 \<or> 0xBF < byte s 2 then 1
             else if sz \<le> 3 then 3
             else if byte s 3 < 0x80 \<or> 0xBF < byte s 3 then 1
             else 4)"

function RuneCountInString :: "string \<Rightarrow> nat" where
  "RuneCountInString s =
     (if s = [] then 0 else Suc (RuneCountInString (drop (max 1 (runeSize s)) s)))"
  by pat_completeness auto
termination
  by (relation "measure length") auto

declare RuneCountInString.simps [simp del]

text \<open>\<^verbatim>\<open>strings.explode(s, n)\<close> after its clamping of \<open>n\<close>: \<open>n - 1\<close> single UTF-8
  sequences, then the rest of the string.\<close>

fun explode :: "nat \<Rightarrow> string \<Rightarrow> string list" where
  "explode 0 s = []"
| "explode (Suc 0) s = [s]"
| "explode (Suc n) s = take (runeSize s) s # explode n (drop (runeSize s) s)"

text \<open>The loop of \<^verbatim>\<open>strings.genSplit\<close> for a non-empty separator, cutting at most
  \<open>n\<close> times.\<close>

fun splitCuts :: "nat \<Rightarrow> string \<Rightarrow> string \<Rightarrow> string list" where
  "splitCuts 0 s sep = [s]"
| "splitCuts (Suc n) s sep =
     (case Index s sep of
        None \<Rightarrow> [s]
      | Some m \<Rightarrow> take m s # splitCuts n (drop (m + length sep) s) sep)"

text \<open>\<^verbatim>\<open>strings.SplitN(s, sep, n)\<close>: nothing for \<open>n = 0\<close>, at most \<open>n\<close> pieces for
  \<open>n > 0\<close> (the last one is the unsplit rest), all pieces for \<open>n < 0\<close> (a string of
  length \<open>l\<close> has at most \<open>l\<close> occurrences of a non-empty separator).\<close>

definition SplitN :: "string \<Rightarrow> string \<Rightarrow> int \<Rightarrow> string list" where
  "SplitN s sep n =
     (if n = 0 then []
      else if sep = [] then
        (let l = RuneCountInString s
         in explode (if n < 0 \<or> int l < n then l else nat n) s)
      else splitCuts (if n < 0 then length s else nat n - 1) s sep)"

text \<open>\<^verbatim>\<open>strings.ReplaceAll(s, old, new)\<close> for a non-empty \<open>old\<close>.\<close>

function ReplaceAll :: "string \<Rightarrow> string \<Rightarrow> string \<Rightarrow> string" where
  "ReplaceAll s old new =
     (if s = [] \<or> old = [] then s
      else if prefix old s then new @ ReplaceAll (drop (length old) s) old new
      else hd s # ReplaceAll (tl s) old new)"
  by pat_completeness auto
termination
  by (relation "measure (\<lambda>(s, old, new). length s)") auto

declare ReplaceAll.simps [simp del]

text \<open>\<^verbatim>\<open>url.QueryUnescape\<close>: an error (\<open>None\<close>) when a \<^verbatim>\<open>%\<close> is not followed by two
  hexadecimal digits; otherwise every \<^verbatim>\<open>%XY\<close> becomes the byte \<open>XY\<close> and every
  \<^verbatim>\<open>+\<close> a space.\<close>

definition ishex :: "char \<Rightarrow> bool" where
  "ishex c = (let n = (of_char c :: nat)
              in (48 \<le> n \<and> n \<le> 57) \<or> (97 \<le> n \<and> n \<le> 102) \<or> (65 \<le> n \<and> n \<le> 70))"

definition unhex :: "char \<Rightarrow> nat" where
  "unhex c = (let n = (of_char c :: nat)
              in if 48 \<le> n \<and> n \<le> 57 then n - 48
                 else if 97 \<le> n \<and> n \<le> 102 then n - 97 + 10
                 else if 65 \<le> n \<and> n \<le> 70 then n - 65 + 10
                 else 0)"

fun escapesOk :: "string \<Rightarrow> bool" where
  "escapesOk [] = True"
| "escapesOk (c # cs) =
     (if c = CHR ''%'' then
        (case cs of
           h1 # h2 # rest \<Rightarrow> ishex h1 \<and> ishex h2 \<and> escapesOk rest
         | _ \<Rightarrow> False)
      else escapesOk cs)"

fun unescape :: "string \<Rightarrow> string" where
  "unescape [] = []"
| "unescape (c # cs) =
     (if c = CHR ''%'' then
        (case cs of
           h1 # h2 # rest \<Rightarrow> char_of (unhex h1 * 16 + unhex h2) # unescape rest
         | _ \<Rightarrow> [])
      else if c = CHR ''+'' then CHR '' '' # unescape cs
      else c # unescape cs)"

definition QueryUnescape :: "string \<Rightarrow> string option" where
  "QueryUnescape s = (if escapesOk s then Some (unescape s) else None)"

text \<open>\<^verbatim>\<open>strconv.Atoi\<close> on a 64-bit platform: an optional sign and one or more decimal
  digits, within the range of \<^verbatim>\<open>int\<close>; \<open>None\<close> stands for a non-nil error.\<close>

definition isDigit :: "char \<Rightarrow> bool" where
  "isDigit c = (let n = (of_char c :: nat) in 48 \<le> n \<and> n \<le> 57)"

definition digitsVal :: "string \<Rightarrow> int" where
  "digitsVal ds = foldl (\<lambda>n c. n * 10 + (int (of_char c) - 48)) 0 ds"

definition Atoi :: "string \<Rightarrow> int option" where
  "Atoi s =
     (let neg = (s \<noteq> [] \<and> hd s = CHR ''-'');
          ds = (if s \<noteq> [] \<and> (hd s = CHR ''-'' \<or> hd s = CHR ''+'') then tl s else s);
          n = (if neg then - digitsVal ds else digitsVal ds)
      in if ds = [] \<or> \<not> list_all isDigit ds then None
         else if n < - (2 ^ 63) \<or> 2 ^ 63 - 1 < n then None
         else Some n)"

text \<open>The two regular expressions of the decoder. \<^verbatim>\<open>bracketReg\<close> is
  \<^verbatim>\<open>(\[[^[\]]*])\<close>: an opening bracket, characters other than brackets, a closing
  bracket. \<open>bracketAt s\<close> is the length of its match at the start of \<open>s\<close>.\<close>

fun closeLen :: "string \<Rightarrow> nat option" where
  "closeLen [] = None"
| "closeLen (c # cs) =
     (if c = CHR '']'' then Some 1
      else if c = CHR ''['' then None
      else map_option Suc (closeLen cs))"

definition bracketAt :: "string \<Rightarrow> nat option" where
  "bracketAt s =
     (case s of [] \<Rightarrow> None
      | c # cs \<Rightarrow> if c = CHR ''['' then map_option Suc (closeLen cs) else None)"

text \<open>\<^verbatim>\<open>bracketReg.FindAllStringIndex(key, n)\<close> for \<open>n > 0\<close>: the first \<open>n\<close> matches
  from left to right, none overlapping, each as the pair of its start and end offsets.
  \<open>off\<close> is the offset of \<open>s\<close> in the key.\<close>

function findAllFrom :: "nat \<Rightarrow> nat \<Rightarrow> string \<Rightarrow> (nat \<times> nat) list" where
  "findAllFrom n off s =
     (if n = 0 \<or> s = [] then []
      else case bracketAt s of
             None \<Rightarrow> findAllFrom n (Suc off) (tl s)
           | Some m \<Rightarrow> (off, off + m) # findAllFrom (n - 1) (off + m) (drop m s))"
  by pat_completeness auto
termination
  by (relation "measure (\<lambda>(n, off, s). length s)")
     (auto simp: bracketAt_def split: list.splits if_splits)

declare findAllFrom.simps [simp del]

definition FindAllStringIndex :: "string \<Rightarrow> nat \<Rightarrow> (nat \<times> nat) list" where
  "FindAllStringIndex s n = findAllFrom n 0 s"

definition FindStringIndex :: "string \<Rightarrow> (nat \<times> nat) option" where
  "FindStringIndex s = (case findAllFrom 1 0 s of [] \<Rightarrow> None | l # _ \<Rightarrow> Some l)"

text \<open>\<^verbatim>\<open>dotReg.ReplaceAllString(key, "[$1]")\<close> with \<^verbatim>\<open>dotReg\<close> =
  \<^verbatim>\<open>\.([^.[]+)\<close>: a dot followed by a longest non-empty run of characters other
  than dot and opening bracket becomes that run in brackets.\<close>

definition dotGroupChar :: "char \<Rightarrow> bool" where
  "dotGroupChar c = (c \<noteq> CHR ''.'' \<and> c \<noteq> CHR ''['')"

function dotReplace :: "string \<Rightarrow> string" where
  "dotReplace [] = []"
| "dotReplace (c # cs) =
     (if c = CHR ''.'' \<and> takeWhile dotGroupChar cs \<noteq> [] then
        CHR ''['' # takeWhile dotGroupChar cs
          @ CHR '']'' # dotReplace (dropWhile dotGroupChar cs)
      else c # dotReplace cs)"
  by pat_completeness auto
termination
  by (relation "measure length") (auto simp: less_Suc_eq_le length_dropWhile_le)

section \<open>The decoder\<close>

text \<open>The fields of \<^verbatim>\<open>Decoder\<close> that the decoding functions read, and the values
  of \<^verbatim>\<open>defaultDecoder\<close>.\<close>

record Decoder =
  allowDots :: bool
  allowEmptyArrays :: bool
  arrayLimit :: int
  comma :: bool
  decodeDotInKeys :: bool
  delimiter :: string
  depth :: int
  duplicates :: string
  ignoreQueryPrefix :: bool
  parameterLimit :: int
  parseArrays :: bool
  strictNullHandling :: bool

definition defaultDecoder :: Decoder where
  "defaultDecoder =
     \<lparr> allowDots = False, allowEmptyArrays = False, arrayLimit = 20, comma = False,
       decodeDotInKeys = False, delimiter = ''&'', depth = 5, duplicates = ''combine'',
       ignoreQueryPrefix = False, parameterLimit = 1000, parseArrays = True,
       strictNullHandling = False \<rparr>"

text \<open>\<^verbatim>\<open>decodeURI\<close>: every \<^verbatim>\<open>+\<close> becomes a space, then the string is unescaped;
  when unescaping fails, the string with the spaces is returned.\<close>

definition decodeURI :: "string \<Rightarrow> string" where
  "decodeURI v =
     (let v' = ReplaceAll v ''+'' '' ''
      in case QueryUnescape v' of None \<Rightarrow> v' | Some ret \<Rightarrow> ret)"

subsection \<open>parseValues\<close>

definition split :: "string \<Rightarrow> string \<Rightarrow> val list" where
  "split str sep = map VStr (SplitN str sep (- 1))"

definition combineValue :: "val \<Rightarrow> val \<Rightarrow> panic + val list" where
  "combineValue v1 v2 =
     (case IsArrayLike v1 of
        Inl e \<Rightarrow> Inl e
      | Inr isArr1 \<Rightarrow>
          (case IsArrayLike v2 of
             Inl e \<Rightarrow> Inl e
           | Inr isArr2 \<Rightarrow>
               (case v1 of
                  VArr a1 \<Rightarrow> (case v2 of VArr a2 \<Rightarrow> Inr (a1 @ a2) | _ \<Rightarrow> Inr (a1 @ [v2]))
                | _ \<Rightarrow> (case v2 of VArr a2 \<Rightarrow> Inr (v1 # a2) | _ \<Rightarrow> Inr [v1, v2]))))"

text \<open>The first lines of \<^verbatim>\<open>parseValues\<close>: the query prefix is dropped
  (\<^verbatim>\<open>str[0]\<close> panics on the empty string), the string is split into at most
  \<^verbatim>\<open>parameterLimit\<close> parts, and when that many parts came out, the last one is cut at
  the next delimiter (\<^verbatim>\<open>parts[d.parameterLimit-1]\<close> panics for the limit 0).\<close>

definition fragments :: "Decoder \<Rightarrow> string \<Rightarrow> panic + string list" where
  "fragments d str =
     (if ignoreQueryPrefix d \<and> str = [] then Inl IndexOutOfRange
      else
        let str' = (if ignoreQueryPrefix d \<and> hd str = CHR ''?'' then tl str else str);
            parts = SplitN str' (delimiter d) (parameterLimit d)
        in if int (length parts) = parameterLimit d then
             (if parameterLimit d - 1 < 0 then Inl IndexOutOfRange
              else Inr (parts[nat (parameterLimit d - 1) :=
                          Cut (parts ! nat (parameterLimit d - 1)) (delimiter d)]))
           else Inr parts)"

text \<open>The body of the loop over the parts, up to the store into \<^verbatim>\<open>result\<close>: the key
  and the value of one part.\<close>

definition parsePair :: "Decoder \<Rightarrow> string \<Rightarrow> panic + string \<times> val" where
  "parsePair d part =
     (let pos = (case Index part '']='' of
                   Some bracketEqualsPos \<Rightarrow> Some (bracketEqualsPos + 1)
                 | None \<Rightarrow> Index part ''='');
          key = (case pos of None \<Rightarrow> decodeURI part | Some p \<Rightarrow> decodeURI (take p part));
          val = (case pos of
                   None \<Rightarrow> (if \<not> strictNullHandling d then VStr [] else VNil)
                 | Some p \<Rightarrow>
                     (let strv = decodeURI (drop (p + 1) part)
                      in if comma d \<and> Contains strv '','' then VArr (split strv '','')
                         else VStr strv))
      in if Contains part ''[]='' then
           (case IsArrayLike val of
              Inl e \<Rightarrow> Inl e
            | Inr isArr \<Rightarrow> Inr (key, if isArr then VArr [val] else val))
         else Inr (key, val))"

text \<open>The store at the end of the loop body: a value under a key that is already there
  is combined with the old one when \<^verbatim>\<open>duplicates\<close> is \<^verbatim>\<open>"combine"\<close>, and
  replaces it otherwise.\<close>

definition storePair :: "Decoder \<Rightarrow> (string \<times> val) list \<Rightarrow> string \<times> val
    \<Rightarrow> panic + (string \<times> val) list" where
  "storePair d result kv =
     (case map_of result (fst kv) of
        Some ev \<Rightarrow>
          (if duplicates d = ''combine'' then
             (case combineValue ev (snd kv) of
                Inl e \<Rightarrow> Inl e
              | Inr r \<Rightarrow> Inr (AList.update (fst kv) (VArr r) result))
           else Inr (AList.update (fst kv) (snd kv) result))
      | None \<Rightarrow> Inr (AList.update (fst kv) (snd kv) result))"

fun parseParts :: "Decoder \<Rightarrow> (string \<times> val) list \<Rightarrow> string list
    \<Rightarrow> panic + (string \<times> val) list" where
  "parseParts d result [] = Inr result"
| "parseParts d result (part # parts) =
     (case parsePair d part of
        Inl e \<Rightarrow> Inl e
      | Inr kv \<Rightarrow>
          (case storePair d result kv of
             Inl e \<Rightarrow> Inl e
           | Inr result' \<Rightarrow> parseParts d result' parts))"

definition parseValues :: "Decoder \<Rightarrow> string \<Rightarrow> panic + (string \<times> val) list" where
  "parseValues d str =
     (case fragments d str of Inl e \<Rightarrow> Inl e | Inr parts \<Rightarrow> parseParts d [] parts)"

subsection \<open>parseKeys\<close>

text \<open>The list \<^verbatim>\<open>keys\<close>: the text before the first bracket group, at most
  \<^verbatim>\<open>depth\<close> bracket groups, and the rest of the key in brackets when more than one
  character follows the last group taken.\<close>

definition splitKey :: "Decoder \<Rightarrow> string \<Rightarrow> string list" where
  "splitKey d key =
     (case FindStringIndex key of
        Some loc \<Rightarrow>
          (if depth d > 0 then
             (let locs = FindAllStringIndex key (nat (depth d));
                  lastLoc = last locs
              in take (fst loc) key
                 # map (\<lambda>l. take (snd l - fst l) (drop (fst l) key)) locs
                 @ (if int (snd lastLoc) < int (length key) - 1
                    then [''['' @ drop (snd lastLoc) key @ '']'']
                    else []))
           else [key])
      | None \<Rightarrow> [key])"

text \<open>One round of the loop from the leaf to the root: \<^verbatim>\<open>root\<close> is
  \<^verbatim>\<open>keys[i]\<close>, the result is the new \<^verbatim>\<open>leaf\<close>. \<^verbatim>\<open>root[0]\<close> panics on
  the empty string.\<close>

definition wrapKey :: "Decoder \<Rightarrow> string \<Rightarrow> val \<Rightarrow> panic + val" where
  "wrapKey d root leaf =
     (if root = ''[]'' \<and> parseArrays d then
        (if allowEmptyArrays d \<and> leaf = VNil then Inr (VArr [])
         else (case concat_go [] leaf of Inl e \<Rightarrow> Inl e | Inr r \<Rightarrow> Inr (VArr r)))
      else if root = [] then Inl IndexOutOfRange
      else
        let cleanRoot = (if hd root = CHR ''['' \<and> last root = CHR '']''
                         then take (length root - 2) (drop 1 root) else root);
            decodedRoot = (if decodeDotInKeys d then ReplaceAll cleanRoot ''%2E'' ''.''
                           else cleanRoot)
        in if \<not> parseArrays d \<and> decodedRoot = [] then Inr (VMap [(KStr ''0'', leaf)])
           else
             (case Atoi decodedRoot of
                Some index \<Rightarrow>
                  (if root \<noteq> decodedRoot \<and> index \<ge> 0
                      \<and> (parseArrays d \<and> index \<le> arrayLimit d)
                   then Inr (VMap [(KInt index, leaf)])
                   else Inr (VMap [(KStr decodedRoot, leaf)]))
              | None \<Rightarrow> Inr (VMap [(KStr decodedRoot, leaf)])))"

text \<open>The loop runs over \<^verbatim>\<open>keys\<close> from the last index down to 0.\<close>

fun wrapKeys :: "Decoder \<Rightarrow> string list \<Rightarrow> val \<Rightarrow> panic + val" where
  "wrapKeys d [] leaf = Inr leaf"
| "wrapKeys d (root # keys) leaf =
     (case wrapKeys d keys leaf of Inl e \<Rightarrow> Inl e | Inr leaf' \<Rightarrow> wrapKey d root leaf')"

definition parseKeys :: "Decoder \<Rightarrow> string \<Rightarrow> val \<Rightarrow> panic + QSType" where
  "parseKeys d key val =
     (let key' = (if allowDots d then dotReplace key else key)
      in case wrapKeys d (splitKey d key') val of
           Inl e \<Rightarrow> Inl e
         | Inr leaf \<Rightarrow> (case leaf of VMap temp \<Rightarrow> Inr temp | _ \<Rightarrow> Inl TypeAssertion))"

subsection \<open>objToArray and Parse\<close>

text \<open>A read \<^verbatim>\<open>m[k]\<close> of a missing key gives nil.\<close>

definition lookupNil :: "QSType \<Rightarrow> key \<Rightarrow> val" where
  "lookupNil m k = (case map_of m k of None \<Rightarrow> VNil | Some v \<Rightarrow> v)"

definition canBeArray :: "QSType \<Rightarrow> bool" where
  "canBeArray obj = list_all (\<lambda>i. map_of obj (KInt (int i)) \<noteq> None) [0..<length obj]"

definition objToArray :: "val \<Rightarrow> panic + val" where
  "objToArray obj =
     (case kindOf obj of
        Inl e \<Rightarrow> Inl e
      | Inr k \<Rightarrow>
          (case obj of
             VMap oMap \<Rightarrow>
               (if canBeArray oMap
                then Inr (VArr (map (\<lambda>i. lookupNil oMap (KInt (int i))) [0..<length oMap]))
                else Inr obj)
           | _ \<Rightarrow> Inr obj))"

text \<open>
  \<^verbatim>\<open>for k, v := range tempObj\<close> visits the entries of a Go map in an order that the
  language leaves open and that changes from run to run. The order is the parameter
  \<open>rng\<close> of \<open>Parse\<close>: a function that permutes the entries (\<open>rangeOrder\<close>).
\<close>

definition rangeOrder :: "((string \<times> val) list \<Rightarrow> (string \<times> val) list) \<Rightarrow> bool" where
  "rangeOrder rng = (\<forall>m. mset (rng m) = mset m)"

fun mergeKeys :: "Decoder \<Rightarrow> val \<Rightarrow> (string \<times> val) list \<Rightarrow> panic + val" where
  "mergeKeys d t [] = Inr t"
| "mergeKeys d t ((k, v) # tempObj) =
     (case parseKeys d k v of
        Inl e \<Rightarrow> Inl e
      | Inr newObj \<Rightarrow>
          (case merge t (VMap newObj) of
             Inl e \<Rightarrow> Inl e
           | Inr t' \<Rightarrow> mergeKeys d t' tempObj))"

fun objToArrayAll :: "QSType \<Rightarrow> QSType \<Rightarrow> panic + QSType" where
  "objToArrayAll ret [] = Inr ret"
| "objToArrayAll ret ((k, v) # obj) =
     (case objToArray v of
        Inl e \<Rightarrow> Inl e
      | Inr a \<Rightarrow> objToArrayAll (AList.update k a ret) obj)"

text \<open>
  \<^verbatim>\<open>Parse\<close> returns a nil error on every path, so its result is the map or a panic.
  \<^verbatim>\<open>t\<close> starts as \<^verbatim>\<open>obj\<close>; \<^verbatim>\<open>merge\<close> of a map into a map updates its target and
  returns it, so after the loop \<^verbatim>\<open>t\<close> still is the map \<^verbatim>\<open>obj\<close> that the last
  loop ranges over.
\<close>

definition Parse :: "((string \<times> val) list \<Rightarrow> (string \<times> val) list) \<Rightarrow> Decoder \<Rightarrow> string
    \<Rightarrow> panic + QSType" where
  "Parse rng d input =
     (if input = [] then Inr []
      else case parseValues d input of
             Inl e \<Rightarrow> Inl e
           | Inr tempObj \<Rightarrow>
               (case mergeKeys d (VMap []) (rng tempObj) of
                  Inl e \<Rightarrow> Inl e
                | Inr t \<Rightarrow> (case t of VMap obj \<Rightarrow> objToArrayAll [] obj | _ \<Rightarrow> Inr [])))"

subsection \<open>Well-formed values and the recognition of arrays, as specified\<close>



section \<open>Properties\<close>

subsection \<open>Auxiliary facts\<close>

lemma update_absent: "map_of m k = None \<Longrightarrow> AList.update k v m = m @ [(k, v)]"
  by (induction m) (auto split: if_splits)

lemma ReplaceAll_Nil: "ReplaceAll [] old new = []"
  by (simp add: ReplaceAll.simps)

lemma findAllFrom_Nil: "findAllFrom n off [] = []"
  by (simp add: findAllFrom.simps)

lemma rangeOrder_id: "rangeOrder id"
  by (simp add: rangeOrder_def)


lemma rangeOrder_single: "rangeOrder rng \<Longrightarrow> rng [x] = [x]"
  by (metis rangeOrder_def mset_single_iff_right mset.simps(1) mset.simps(2))

subsection \<open>The merge engine\<close>

text \<open>
  C10. For every mapping accumulator and every scalar addition (a string or a bool:
  not nil, not a mapping, not a sequence), \<open>merge\<close> returns the accumulator with the
  scalar stored as a new key with the value \<open>true\<close> when the accumulator has no such
  key, and the accumulator as it is otherwise; the entries that were there are
  unchanged. For example, merging \<open>{b: "c"}\<close> with \<open>"d"\<close> gives \<open>{b: "c", d: true}\<close>.
\<close>

theorem merge_map_scalar:
  assumes "source = VStr s \<or> source = VBool b"
  shows "merge (VMap tMap) source =
           Inr (VMap (if map_of tMap (keyOf source) = None
                      then tMap @ [(keyOf source, VBool True)] else tMap))"
  using assms by (auto simp: merge.simps(1) isObject_def mergeScalar_def update_absent)

theorem merge_map_scalar_witness:
  "(VStr ''d'' = VStr ''d'' \<or> VStr ''d'' = VBool True)
   \<and> merge (VMap [(KStr ''b'', VStr ''c'')]) (VStr ''d'')
       = Inr (VMap [(KStr ''b'', VStr ''c''), (KStr ''d'', VBool True)])"
  using merge_map_scalar [of "VStr ''d''" "''d''" True "[(KStr ''b'', VStr ''c'')]"]
  by simp

subsection \<open>Depth and array limit\<close>

text \<open>
  C2. With the default configuration (depth 5), decoding
  \<open>a[b][c][d][e][f][g][h]=i\<close> gives five bracket levels below the root key \<open>a\<close>
  (the keys \<open>b\<close>, \<open>c\<close>, \<open>d\<close>, \<open>e\<close>, \<open>f\<close>); the innermost mapping holds the rest
  \<open>[g][h]\<close> of the key as one string key with the value \<open>i\<close>. This holds for every
  order in which the split result is visited.
\<close>

theorem Parse_depth_boundary:
  assumes "rangeOrder rng"
  shows "Parse rng defaultDecoder ''a[b][c][d][e][f][g][h]=i'' =
     Inr [(KStr ''a'', VMap [(KStr ''b'', VMap [(KStr ''c'', VMap [(KStr ''d'',
            VMap [(KStr ''e'', VMap [(KStr ''f'',
              VMap [(KStr ''[g][h]'', VStr ''i'')])])])])])])]"
proof -
  have pv: "parseValues defaultDecoder ''a[b][c][d][e][f][g][h]=i''
              = Inr [(''a[b][c][d][e][f][g][h]'', VStr ''i'')]"
    by code_simp
  have mk: "mergeKeys defaultDecoder (VMap []) [(''a[b][c][d][e][f][g][h]'', VStr ''i'')] =
     Inr (VMap [(KStr ''a'', VMap [(KStr ''b'', VMap [(KStr ''c'', VMap [(KStr ''d'',
            VMap [(KStr ''e'', VMap [(KStr ''f'',
              VMap [(KStr ''[g][h]'', VStr ''i'')])])])])])])])"
    by code_simp
  have oa: "objToArrayAll [] [(KStr ''a'', VMap [(KStr ''b'', VMap [(KStr ''c'',
            VMap [(KStr ''d'', VMap [(KStr ''e'', VMap [(KStr ''f'',
              VMap [(KStr ''[g][h]'', VStr ''i'')])])])])])])] =
     Inr [(KStr ''a'', VMap [(KStr ''b'', VMap [(KStr ''c'', VMap [(KStr ''d'',
            VMap [(KStr ''e'', VMap [(KStr ''f'',
              VMap [(KStr ''[g][h]'', VStr ''i'')])])])])])])]"
    by code_simp
  show ?thesis
    by (simp add: Parse_def pv rangeOrder_single [OF assms] mk oa
          del: mergeKeys.simps objToArrayAll.simps)
qed

theorem Parse_depth_boundary_witness:
  "rangeOrder id \<and> Parse id defaultDecoder ''a[b][c][d][e][f][g][h]=i'' =
     Inr [(KStr ''a'', VMap [(KStr ''b'', VMap [(KStr ''c'', VMap [(KStr ''d'',
            VMap [(KStr ''e'', VMap [(KStr ''f'',
              VMap [(KStr ''[g][h]'', VStr ''i'')])])])])])])]"
  using Parse_depth_boundary [OF rangeOrder_id] rangeOrder_id by simp

text \<open>
  C5. With the array limit 20, decoding \<open>a[20]=x\<close> gives for \<open>a\<close> a mapping with
  the integer key 20, and decoding \<open>a[21]=x\<close> gives for \<open>a\<close> a mapping with the string
  key \<open>"21"\<close>, which is not a sequence. This holds for every order in which the split
  result is visited.
\<close>

theorem Parse_array_limit_boundary:
  assumes "rangeOrder rng" and "d = defaultDecoder\<lparr>arrayLimit := 20\<rparr>"
  shows "Parse rng d ''a[20]=x'' = Inr [(KStr ''a'', VMap [(KInt 20, VStr ''x'')])]
       \<and> Parse rng d ''a[21]=x'' = Inr [(KStr ''a'', VMap [(KStr ''21'', VStr ''x'')])]"
proof -
  let ?d = "defaultDecoder\<lparr>arrayLimit := 20\<rparr>"
  have pv: "parseValues ?d ''a[20]=x'' = Inr [(''a[20]'', VStr ''x'')]"
           "parseValues ?d ''a[21]=x'' = Inr [(''a[21]'', VStr ''x'')]"
    by code_simp+
  have mk: "mergeKeys ?d (VMap []) [(''a[20]'', VStr ''x'')]
              = Inr (VMap [(KStr ''a'', VMap [(KInt 20, VStr ''x'')])])"
           "mergeKeys ?d (VMap []) [(''a[21]'', VStr ''x'')]
              = Inr (VMap [(KStr ''a'', VMap [(KStr ''21'', VStr ''x'')])])"
    by code_simp+
  have oa: "objToArrayAll [] [(KStr ''a'', VMap [(KInt 20, VStr ''x'')])]
              = Inr [(KStr ''a'', VMap [(KInt 20, VStr ''x'')])]"
           "objToArrayAll [] [(KStr ''a'', VMap [(KStr ''21'', VStr ''x'')])]
              = Inr [(KStr ''a'', VMap [(KStr ''21'', VStr ''x'')])]"
    by code_simp+
  show ?thesis
    unfolding assms(2)
    by (simp add: Parse_def pv rangeOrder_single [OF assms(1)] mk oa
          del: mergeKeys.simps objToArrayAll.simps)
qed

theorem Parse_array_limit_boundary_witness:
  "rangeOrder id
   \<and> Parse id (defaultDecoder\<lparr>arrayLimit := 20\<rparr>) ''a[20]=x''
       = Inr [(KStr ''a'', VMap [(KInt 20, VStr ''x'')])]
   \<and> Parse id (defaultDecoder\<lparr>arrayLimit := 20\<rparr>) ''a[21]=x''
       = Inr [(KStr ''a'', VMap [(KStr ''21'', VStr ''x'')])]"
  using Parse_array_limit_boundary [OF rangeOrder_id refl] rangeOrder_id by simp

subsection \<open>Inputs on which the decoder stops\<close>

text \<open>
  C1. The claim is that \<open>Parse\<close> returns a mapping for every input and every
  configuration, also for inputs with empty fragments such as \<open>=5\<close> and for pairs whose
  value is nil under \<open>strictNullHandling\<close>. The code does not: \<open>parseKeys\<close> reads
  \<^verbatim>\<open>root[0]\<close> of an empty key and panics, under every configuration, so \<open>Parse\<close>
  panics on \<open>=5\<close>; and a nil value reaches \<^verbatim>\<open>reflect.TypeOf(obj).Kind()\<close> in
  \<open>objToArray\<close>, so \<open>Parse\<close> panics on \<open>a\<close> under \<open>strictNullHandling\<close>.
\<close>

theorem Parse_panics_on_empty_key:
  "Parse id defaultDecoder ''=5'' = Inl IndexOutOfRange
   \<and> Parse id (defaultDecoder\<lparr>strictNullHandling := True\<rparr>) ''a'' = Inl NilDereference
   \<and> parseKeys d [] v = Inl IndexOutOfRange"
proof -
  have 1: "Parse id defaultDecoder ''=5'' = Inl IndexOutOfRange"
    by code_simp
  have 2: "Parse id (defaultDecoder\<lparr>strictNullHandling := True\<rparr>) ''a'' = Inl NilDereference"
    by code_simp
  have 3: "parseKeys d [] v = Inl IndexOutOfRange"
    by (simp add: parseKeys_def splitKey_def FindStringIndex_def wrapKey_def findAllFrom_Nil)
  from 1 2 3 show ?thesis by blast
qed

text \<open>
  C4. The claim is that empty fragments are skipped, so that \<open>a=1&\<close> decodes to
  \<open>{a: "1"}\<close>. The code keeps the empty fragment: the split result has the entry
  \<open>"": ""\<close> besides \<open>a: "1"\<close>, and \<open>Parse\<close> then panics in \<open>parseKeys\<close> on the
  empty key, in whichever order the two entries are visited.
\<close>

theorem Parse_trailing_delimiter:
  "parseValues defaultDecoder ''a=1&'' = Inr [(''a'', VStr ''1''), ([], VStr [])]
   \<and> Parse id defaultDecoder ''a=1&'' = Inl IndexOutOfRange
   \<and> Parse rev defaultDecoder ''a=1&'' = Inl IndexOutOfRange"
  by code_simp

subsection \<open>Value splitting\<close>

text \<open>
  C3. The claim is that with \<open>comma\<close> enabled the split decision is made on the
  value as it is still encoded, so that \<open>foo=a%2Cb\<close> decodes to the scalar \<open>"a,b"\<close> and
  \<open>foo=a%2Cb,c\<close> to \<open>["a,b", "c"]\<close>. The code tests the decoded value for a comma and
  splits the decoded value: \<open>foo=a%2Cb\<close> decodes to \<open>["a", "b"]\<close> and \<open>foo=a%2Cb,c\<close>
  to \<open>["a", "b", "c"]\<close>. Only \<open>foo=a,b\<close> decodes as claimed.
\<close>

theorem Parse_comma_after_decoding:
  "Parse id (defaultDecoder\<lparr>comma := True\<rparr>) ''foo=a%2Cb''
     = Inr [(KStr ''foo'', VArr [VStr ''a'', VStr ''b''])]
   \<and> Parse id (defaultDecoder\<lparr>comma := True\<rparr>) ''foo=a%2Cb,c''
     = Inr [(KStr ''foo'', VArr [VStr ''a'', VStr ''b'', VStr ''c''])]
   \<and> Parse id (defaultDecoder\<lparr>comma := True\<rparr>) ''foo=a,b''
     = Inr [(KStr ''foo'', VArr [VStr ''a'', VStr ''b''])]"
  by code_simp

lemma Index_complete: "Index (xs @ sub @ ys) sub \<noteq> None"
proof (induction xs)
  case Nil
  have "prefix sub (sub @ ys)" by simp
  then show ?case by (cases "sub @ ys") auto
next
  case (Cons x xs)
  then show ?case by auto
qed

lemma Index_sound: "Index s sub = Some i \<Longrightarrow> \<exists>xs ys. s = xs @ sub @ ys"
proof (induction s arbitrary: i)
  case Nil
  then show ?case by (auto split: if_splits)
next
  case (Cons c cs)
  show ?case
  proof (cases "prefix sub (c # cs)")
    case True
    then obtain ys where "c # cs = sub @ ys" by (auto simp: prefix_def)
    then have "c # cs = [] @ sub @ ys" by simp
    then show ?thesis by blast
  next
    case False
    with Cons.prems obtain j where "Index cs sub = Some j" by auto
    from Cons.IH [OF this] obtain xs ys where "cs = xs @ sub @ ys" by blast
    then have "c # cs = (c # xs) @ sub @ ys" by simp
    then show ?thesis by blast
  qed
qed

lemma parsePair_total: "\<exists>kv. parsePair d part = Inr kv"
proof (cases "Contains part ''[]=''")
  case False
  then show ?thesis by (simp add: parsePair_def Let_def)
next
  case True
  then obtain i where "Index part ''[]='' = Some i" by (auto simp: Contains_def)
  from Index_sound [OF this] obtain xs ys where "part = xs @ ''[]='' @ ys" by blast
  then have "part = (xs @ ''['') @ '']='' @ ys" by simp
  then have "Index part '']='' \<noteq> None" using Index_complete by metis
  then obtain p where p: "Index part '']='' = Some p" by auto
  show ?thesis
    by (simp add: parsePair_def Let_def p IsArrayLike_def)
qed

lemma parseParts_last_wins:
  assumes "duplicates d \<noteq> ''combine''"
    and "list_all2 (\<lambda>part kv. parsePair d part = Inr kv) parts kvs"
  shows "\<exists>r. parseParts d acc parts = Inr r \<and> map_of r = map_of (rev kvs @ acc)"
  using assms(2)
proof (induction parts kvs arbitrary: acc rule: list_all2_induct)
  case Nil
  then show ?case by simp
next
  case (Cons part parts kv kvs)
  have st: "storePair d acc kv = Inr (AList.update (fst kv) (snd kv) acc)"
    using assms(1) by (simp add: storePair_def split: option.splits)
  from Cons.IH [of "AList.update (fst kv) (snd kv) acc"]
  obtain r where r: "parseParts d (AList.update (fst kv) (snd kv) acc) parts = Inr r"
    and m: "map_of r = map_of (rev kvs @ AList.update (fst kv) (snd kv) acc)"
    by blast
  have "map_of (rev kvs @ AList.update (fst kv) (snd kv) acc)
          = map_of (rev (kv # kvs) @ acc)"
    by (cases kv) (simp add: update_conv')
  with r m Cons.hyps(1) st show ?case by simp
qed

text \<open>
  C6, as amended. Under the duplicates policy \<open>first\<close>, as under every policy other
  than \<open>combine\<close>, a later occurrence of a flat key replaces the value stored before:
  for every input, every fragment yields a pair, and the split result maps each flat key
  to the value of its last occurrence (\<open>map_of\<close> reads the first pair with the key, so
  \<open>map_of (rev kvs)\<close> reads the last pair of \<open>kvs\<close>).
\<close>

theorem parseValues_last_wins:
  assumes "duplicates d \<noteq> ''combine''" and "fragments d str = Inr parts"
  shows "\<exists>kvs r. list_all2 (\<lambda>part kv. parsePair d part = Inr kv) parts kvs
           \<and> parseValues d str = Inr r \<and> map_of r = map_of (rev kvs)"
proof -
  have "\<exists>kvs. list_all2 (\<lambda>part kv. parsePair d part = Inr kv) parts kvs"
  proof (induction parts)
    case Nil
    show ?case by simp
  next
    case (Cons p ps)
    then obtain kvs where "list_all2 (\<lambda>part kv. parsePair d part = Inr kv) ps kvs" by blast
    moreover obtain kv where "parsePair d p = Inr kv" using parsePair_total by blast
    ultimately have "list_all2 (\<lambda>part kv. parsePair d part = Inr kv) (p # ps) (kv # kvs)"
      by simp
    then show ?case by blast
  qed
  then obtain kvs where kvs: "list_all2 (\<lambda>part kv. parsePair d part = Inr kv) parts kvs"
    by blast
  from parseParts_last_wins [OF assms(1) kvs, of "[]"]
  obtain r where "parseParts d [] parts = Inr r" "map_of r = map_of (rev kvs)" by auto
  with kvs assms(2) show ?thesis by (auto simp: parseValues_def)
qed

theorem parseValues_last_wins_witness:
  "duplicates (defaultDecoder\<lparr>duplicates := ''first''\<rparr>) \<noteq> ''combine''
   \<and> fragments (defaultDecoder\<lparr>duplicates := ''first''\<rparr>) ''a=1&a=2&a=3'' = Inr [''a=1'', ''a=2'', ''a=3'']
   \<and> parseValues (defaultDecoder\<lparr>duplicates := ''first''\<rparr>) ''a=1&a=2&a=3'' = Inr [(''a'', VStr ''3'')]"
proof -
  let ?d = "defaultDecoder\<lparr>duplicates := ''first''\<rparr>"
  have h1: "duplicates ?d \<noteq> ''combine''" by (simp add: defaultDecoder_def)
  have h2: "fragments ?d ''a=1&a=2&a=3'' = Inr [''a=1'', ''a=2'', ''a=3'']" by code_simp
  have "parseValues ?d ''a=1&a=2&a=3'' = Inr [(''a'', VStr ''3'')]" by code_simp
  with parseValues_last_wins [OF h1 h2] h1 h2 show ?thesis by simp
qed

text \<open>The claim as it was stated (only the first occurrence is kept under \<open>first\<close>)
  fails on \<open>a=1&a=2\<close>: the value kept is that of the second occurrence.\<close>

theorem parseValues_first_counterexample:
  "parseValues (defaultDecoder\<lparr>duplicates := ''first''\<rparr>) ''a=1&a=2'' = Inr [(''a'', VStr ''2'')]"
  by code_simp

subsection \<open>Key paths without arrays\<close>

lemma wrapKey_no_arrays:
  assumes "\<not> parseArrays d" and "wrapKey d root leaf = Inr r"
  shows "\<exists>k. r = VMap [(KStr k, leaf)]"
  using assms
  by (auto simp: wrapKey_def Let_def split: if_splits option.splits)

lemma wrapKeys_no_arrays:
  assumes "\<not> parseArrays d"
  shows "wrapKeys d keys val = Inr r \<Longrightarrow> \<exists>ks. r = foldr (\<lambda>k v. VMap [(KStr k, v)]) ks val"
proof (induction keys arbitrary: r)
  case Nil
  then have "r = foldr (\<lambda>k v. VMap [(KStr k, v)]) [] val" by simp
  then show ?case by blast
next
  case (Cons root keys)
  from Cons.prems obtain leaf where leaf: "wrapKeys d keys val = Inr leaf"
    and r: "wrapKey d root leaf = Inr r"
    by (auto split: sum.splits)
  from Cons.IH [OF leaf] obtain ks where ks: "leaf = foldr (\<lambda>k v. VMap [(KStr k, v)]) ks val"
    by blast
  from wrapKey_no_arrays [OF assms r] obtain k where "r = VMap [(KStr k, leaf)]" by blast
  with ks have "r = foldr (\<lambda>k v. VMap [(KStr k, v)]) (k # ks) val" by simp
  then show ?case by blast
qed

text \<open>
  C7. When \<open>parseArrays\<close> is disabled, the segment \<open>[]\<close> wraps the leaf in a mapping
  under the string key \<open>"0"\<close> and is not an array marker; and \<open>parseKeys\<close> produces no
  array: whenever it returns, its result is the value it was given, wrapped in one
  single-entry mapping with a string key per segment (a value that the value splitter
  made a sequence stays the leaf as it is).
\<close>

theorem parseKeys_no_arrays:
  assumes "\<not> parseArrays d"
  shows "wrapKey d ''[]'' leaf = Inr (VMap [(KStr ''0'', leaf)])
       \<and> (\<forall>key val m. parseKeys d key val = Inr m \<longrightarrow>
            (\<exists>ks. VMap m = foldr (\<lambda>k v. VMap [(KStr k, v)]) ks val))"
proof -
  have 1: "wrapKey d ''[]'' leaf = Inr (VMap [(KStr ''0'', leaf)])"
    using assms by (simp add: wrapKey_def ReplaceAll_Nil)
  have 2: "\<exists>ks. VMap m = foldr (\<lambda>k v. VMap [(KStr k, v)]) ks val"
    if "parseKeys d key val = Inr m" for key val m
  proof -
    let ?key = "if allowDots d then dotReplace key else key"
    from that obtain leaf where "wrapKeys d (splitKey d ?key) val = Inr leaf" and "leaf = VMap m"
      by (auto simp: parseKeys_def Let_def split: sum.splits val.splits)
    with wrapKeys_no_arrays [OF assms] show ?thesis by blast
  qed
  from 1 2 show ?thesis by blast
qed

theorem parseKeys_no_arrays_witness:
  "\<not> parseArrays (defaultDecoder\<lparr>parseArrays := False\<rparr>)
   \<and> wrapKey (defaultDecoder\<lparr>parseArrays := False\<rparr>) ''[]'' (VStr ''1'')
       = Inr (VMap [(KStr ''0'', VStr ''1'')])
   \<and> parseKeys (defaultDecoder\<lparr>parseArrays := False\<rparr>) ''a[]'' (VStr ''1'')
       = Inr [(KStr ''a'', VMap [(KStr ''0'', VStr ''1'')])]
   \<and> (\<exists>ks. VMap [(KStr ''a'', VMap [(KStr ''0'', VStr ''1'')])]
            = foldr (\<lambda>k v. VMap [(KStr k, v)]) ks (VStr ''1''))"
proof -
  let ?d = "defaultDecoder\<lparr>parseArrays := False\<rparr>"
  have h: "\<not> parseArrays ?d" by (simp add: defaultDecoder_def)
  have pk: "parseKeys ?d ''a[]'' (VStr ''1'') = Inr [(KStr ''a'', VMap [(KStr ''0'', VStr ''1'')])]"
    by code_simp
  from parseKeys_no_arrays [OF h, of "VStr ''1''"] h pk show ?thesis by blast
qed

subsection \<open>Array recognition\<close>


























subsection \<open>The order of the fold\<close>







end
